theory Spec2Isabelle
  imports Complex_Main
begin

section \<open>The map renderer of \<open>src/mapGenerator.js\<close>\<close>

text \<open>
  The module exports \<open>generateMap\<close> and has two private helpers, \<open>setupProjection\<close> and
  \<open>applyBounds\<close>. Everything else it touches is a JavaScript built-in (\<open>split\<close>, \<open>trim\<close>,
  \<open>toUpperCase\<close>, \<open>toLowerCase\<close>, \<open>Number\<close>, \<open>isNaN\<close>) or a collaborator whose code is
  elsewhere (the projection and path library, the document library, the dataset loader, the
  file system).

  Strings are HOL strings and are read as ASCII text: the case mappings change the
  twenty-six ASCII letters only and \<open>trim\<close> removes the six ASCII white space characters.
  A JavaScript value that may be \<open>undefined\<close> is an \<open>option\<close>, with \<open>None\<close> for
  \<open>undefined\<close>.
\<close>

subsection \<open>String built-ins\<close>

definition lower_letters :: string where
  "lower_letters = ''abcdefghijklmnopqrstuvwxyz''"

definition upper_letters :: string where
  "upper_letters = ''ABCDEFGHIJKLMNOPQRSTUVWXYZ''"

definition toUpperCase_char :: "char \<Rightarrow> char" where
  "toUpperCase_char c =
     (case map_of (zip lower_letters upper_letters) c of None \<Rightarrow> c | Some u \<Rightarrow> u)"

definition toLowerCase_char :: "char \<Rightarrow> char" where
  "toLowerCase_char c =
     (case map_of (zip upper_letters lower_letters) c of None \<Rightarrow> c | Some l \<Rightarrow> l)"

definition toUpperCase :: "string \<Rightarrow> string" where
  "toUpperCase s = map toUpperCase_char s"

definition toLowerCase :: "string \<Rightarrow> string" where
  "toLowerCase s = map toLowerCase_char s"

text \<open>White space as \<open>trim\<close> sees it: tab, line feed, vertical tab, form feed, carriage
  return and space.\<close>

definition isWhiteSpace :: "char \<Rightarrow> bool" where
  "isWhiteSpace c =
     (c \<in> set [CHR 0x09, CHR 0x0A, CHR 0x0B, CHR 0x0C, CHR 0x0D, CHR '' ''])"

definition trim :: "string \<Rightarrow> string" where
  "trim s = rev (dropWhile isWhiteSpace (rev (dropWhile isWhiteSpace s)))"

text \<open>\<open>s.split(sep)\<close> for a separator of one character: the pieces between the occurrences
  of the separator, so a string with \<open>n\<close> separators has \<open>n + 1\<close> pieces and the empty
  string has the one piece \<open>''''\<close>.\<close>

fun split :: "char \<Rightarrow> string \<Rightarrow> string list" where
  "split sep [] = [[]]"
| "split sep (c # cs) =
     (if c = sep then [] # split sep cs
      else (case split sep cs of
              [] \<Rightarrow> [[c]]
            | w # ws \<Rightarrow> (c # w) # ws))"

text \<open>Array destructuring \<open>const [a, b] = xs\<close> reads \<open>xs[0]\<close>, \<open>xs[1]\<close>; an index past the
  end reads \<open>undefined\<close>.\<close>

fun item :: "'a list \<Rightarrow> nat \<Rightarrow> 'a option" where
  "item [] i = None"
| "item (x # xs) 0 = Some x"
| "item (x # xs) (Suc i) = item xs i"

text \<open>The truthiness test \<open>if (s)\<close> on an optional string: \<open>undefined\<close> and the empty
  string are falsy.\<close>

fun truthy :: "string option \<Rightarrow> bool" where
  "truthy None = False"
| "truthy (Some s) = (s \<noteq> [])"

subsection \<open>Numbers\<close>

text \<open>A JavaScript number: not-a-number, the two infinities, or a finite value. The finite
  values are kept as rationals; the module does no arithmetic on them beyond the exact
  divisions \<open>1200 / 10\<close>, \<open>1200 / 6\<close>, \<open>1200 / 2\<close> and \<open>800 / 2\<close>.\<close>

datatype number = NaN | PosInfinity | NegInfinity | Finite rat

text \<open>The global \<open>isNaN\<close> converts its argument to a number first, and \<open>undefined\<close>
  converts to \<open>NaN\<close>.\<close>

fun isNaN :: "number option \<Rightarrow> bool" where
  "isNaN None = True"
| "isNaN (Some NaN) = True"
| "isNaN (Some _) = False"

subsection \<open>The projection object\<close>

text \<open>The two constructors the module imports, and the state of a projection object that
  the module can set: its scale, its translation and its rotation. A field is \<open>None\<close> while
  the module has not set it, that is while it has the library's default.\<close>

datatype projection_kind = geoWaterman | geoWinkel3

record projection =
  kind :: projection_kind
  scale :: "number option"
  translate :: "(number \<times> number) option"
  rotate :: "(number option \<times> number option \<times> number option) option"

definition new_projection :: "projection_kind \<Rightarrow> projection" where
  "new_projection k = \<lparr>kind = k, scale = None, translate = None, rotate = None\<rparr>"

text \<open>The object handed to \<open>fitExtent\<close>: a feature whose geometry is a polygon, given by
  its rings of positions. A position is the two-element array the source writes, so its
  entries are values that could be \<open>undefined\<close>.\<close>

type_synonym position = "number option \<times> number option"

datatype geometry = Polygon "position list list"

datatype feature = Feature geometry

type_synonym extent = "(number \<times> number) \<times> (number \<times> number)"

text \<open>\<open>projection.fitExtent(extent, object)\<close> belongs to the projection library: it sets the
  projection's scale and translation to the values that fit the object into the extent and
  leaves the kind and the rotation alone. What those values are is the library's own
  computation; it is the parameter \<open>fit\<close>, which may look at the whole projection.\<close>

type_synonym fitting = "projection \<Rightarrow> extent \<Rightarrow> feature \<Rightarrow> number \<times> number \<times> number"

definition fitExtent :: "fitting \<Rightarrow> projection \<Rightarrow> extent \<Rightarrow> feature \<Rightarrow> projection" where
  "fitExtent fit proj ext obj =
     (case fit proj ext obj of (k, x, y) \<Rightarrow> proj\<lparr>scale := Some k, translate := Some (x, y)\<rparr>)"

subsection \<open>Constants and errors\<close>

definition WIDTH :: rat where
  "WIDTH = 1200"

definition HEIGHT :: rat where
  "HEIGHT = 800"

definition DEFAULT_STYLES :: "string \<rightharpoonup> string" where
  "DEFAULT_STYLES =
     map_of
       [(''linethickness'', ''1''),
        (''linecolor'', ''black''),
        (''outlinethickness'', ''0.5''),
        (''outlinecolor'', ''black''),
        (''showgraticules'', ''true''),
        (''background'', ''white'')]"

text \<open>The values a \<open>throw\<close> or a rejected promise carries: the module's own \<open>Error\<close>
  objects with their message, the \<open>TypeError\<close> of a method call on \<open>undefined\<close>, and the
  collaborators' failures, which the module never catches.\<close>

datatype 'e exn = Error string | TypeError | Thrown 'e

subsection \<open>\<open>setupProjection\<close>\<close>

text \<open>The \<open>switch\<close> on the upper-cased identifier builds the projection or throws; the
  \<open>if (center)\<close> block then rotates it when both parsed components are numbers. The
  built-in \<open>Number\<close> is a parameter.\<close>

definition setupProjection ::
  "(string \<Rightarrow> number) \<Rightarrow> string \<Rightarrow> string option \<Rightarrow> 'e exn + projection" where
  "setupProjection Number projectionType center =
     (let up = toUpperCase projectionType;
          made =
            (if up = ''WB'' then
               Inr ((new_projection geoWaterman)
                      \<lparr>scale := Some (Finite (WIDTH / 10)),
                       translate := Some (Finite (WIDTH / 2), Finite (HEIGHT / 2))\<rparr>)
             else if up = ''W3'' then
               Inr ((new_projection geoWinkel3)
                      \<lparr>scale := Some (Finite (WIDTH / 6)),
                       translate := Some (Finite (WIDTH / 2), Finite (HEIGHT / 2))\<rparr>)
             else Inl (Error (''Unsupported projection type: '' @ projectionType)))
      in case made of
           Inl e \<Rightarrow> Inl e
         | Inr proj \<Rightarrow>
             (case center of
                None \<Rightarrow> Inr proj
              | Some c \<Rightarrow>
                  (if truthy (Some c) then
                     (let parts = map Number (split CHR '','' c);
                          lat = item parts 0;
                          lon = item parts 1
                      in if \<not> isNaN lat \<and> \<not> isNaN lon
                         then Inr (proj\<lparr>rotate := Some (lon, lat, Some (Finite 0))\<rparr>)
                         else Inr proj)
                   else Inr proj)))"

subsection \<open>\<open>applyBounds\<close>\<close>

text \<open>The source mutates the projection it is given and returns nothing; the model returns
  the projection after the call, or the error thrown.\<close>

definition applyBounds ::
  "(string \<Rightarrow> number) \<Rightarrow> fitting \<Rightarrow> projection \<Rightarrow> string \<Rightarrow> 'e exn + projection" where
  "applyBounds Number fit proj bounds =
     (let parts = map Number (split CHR '','' bounds);
          minLat = item parts 0;
          maxLat = item parts 1;
          minLon = item parts 2;
          maxLon = item parts 3
      in if list_ex isNaN [minLat, maxLat, minLon, maxLon]
         then Inl (Error ''Invalid bounds format. Expected: minLat,maxLat,minLon,maxLon'')
         else
           (let boundingBox =
                  Feature (Polygon
                    [[(minLon, minLat),
                      (minLon, maxLat),
                      (maxLon, maxLat),
                      (maxLon, minLat),
                      (minLon, minLat)]])
            in Inr (fitExtent fit proj
                      ((Finite 0, Finite 0), (Finite WIDTH, Finite HEIGHT)) boundingBox)))"

subsection \<open>The document\<close>

text \<open>What \<open>.datum(...)\<close> binds to an element: the sphere object, the graticule with its
  step, or the geometry the loader returned.\<close>

datatype 'g datum = Sphere | Graticule "rat \<times> rat" | MapData 'g

text \<open>An attribute value is a string, \<open>undefined\<close>, or the path generator over a projection
  (\<open>geoPath().projection(proj)\<close>), which the document library applies to the element's
  datum.\<close>

datatype attr_value = Undefined | Str string | GeoPath projection

datatype 'g element =
  Element (tag: string) (datum: "'g datum option")
    (attrs: "(string \<times> attr_value) list") (children: "'g element list")

text \<open>Reading a property of the styles object gives its value or \<open>undefined\<close>;
  \<open>parent.append(...)\<close> adds a last child.\<close>

definition property :: "(string \<rightharpoonup> string) \<Rightarrow> string \<Rightarrow> attr_value" where
  "property obj k = (case obj k of None \<Rightarrow> Undefined | Some v \<Rightarrow> Str v)"

definition appendChild :: "'g element \<Rightarrow> 'g element \<Rightarrow> 'g element" where
  "appendChild parent child =
     Element (tag parent) (datum parent) (attrs parent) (children parent @ [child])"

text \<open>Lines 39 to 40: the root element made by \<open>createSVG(WIDTH, HEIGHT)\<close>, with the
  \<open>viewBox\<close> attribute the module adds. Lines 50 to 61: the \<open>defs\<close> element with the sphere
  path and the clip path that uses it. Lines 64 to 68: the background. Lines 72 to 80: the
  graticule path. Lines 88 to 94: the path of one dataset. The serialisation of the
  document to text is the document library's; the model keeps the tree.\<close>

definition createSVG :: "'g element" where
  "createSVG =
     Element ''svg'' None
       [(''width'', Str ''1200''), (''height'', Str ''800''),
        (''viewBox'', Str ''0 0 1200 800'')] []"

definition defs :: "projection \<Rightarrow> 'g element" where
  "defs proj =
     Element ''defs'' None []
       [Element ''path'' (Some Sphere) [(''id'', Str ''sphere''), (''d'', GeoPath proj)] [],
        Element ''clipPath'' None [(''id'', Str ''clip'')]
          [Element ''use'' None [(''href'', Str ''#sphere'')] []]]"

definition background :: "(string \<rightharpoonup> string) \<Rightarrow> 'g element" where
  "background styles =
     Element ''use'' None
       [(''href'', Str ''#sphere''),
        (''fill'', property styles ''background''),
        (''stroke'', property styles ''outlinecolor''),
        (''stroke-width'', property styles ''outlinethickness'')] []"

definition graticulePath :: "projection \<Rightarrow> 'g element" where
  "graticulePath proj =
     Element ''path'' (Some (Graticule (15, 15)))
       [(''d'', GeoPath proj),
        (''clip-path'', Str ''url(#clip)''),
        (''fill'', Str ''none''),
        (''stroke'', Str ''#666''),
        (''stroke-width'', Str ''0.5''),
        (''stroke-dasharray'', Str ''2,2'')] []"

definition mapPath :: "(string \<rightharpoonup> string) \<Rightarrow> projection \<Rightarrow> 'g \<Rightarrow> 'g element" where
  "mapPath styles proj mapData =
     Element ''path'' (Some (MapData mapData))
       [(''d'', GeoPath proj),
        (''clip-path'', Str ''url(#clip)''),
        (''fill'', Str ''none''),
        (''stroke'', property styles ''linecolor''),
        (''stroke-width'', property styles ''linethickness'')] []"

subsection \<open>\<open>generateMap\<close>\<close>

text \<open>What the module is run with: the built-in \<open>Number\<close>, the projection library's
  fitting, the dataset loader (which returns a geometry or fails) and the file write
  (which fails or not). \<open>'e\<close> is whatever those two collaborators fail with, \<open>'g\<close> the
  geometry of a dataset.\<close>

record ('e, 'g) env =
  Number :: "string \<Rightarrow> number"
  fit :: fitting
  loadDataset :: "string \<Rightarrow> 'e + 'g"
  writeFile :: "string \<Rightarrow> 'g element \<Rightarrow> 'e option"

text \<open>The calls a run makes to the loader and to the file system, in the order it makes
  them.\<close>

datatype 'g call = Load string | Write string "'g element"

definition mergeStyles :: "(string \<rightharpoonup> string) option \<Rightarrow> (string \<rightharpoonup> string)" where
  "mergeStyles provided =
     DEFAULT_STYLES ++ (case provided of None \<Rightarrow> Map.empty | Some s \<Rightarrow> s)"

text \<open>The \<open>for\<close> loop over the datasets: each one is loaded, then drawn as the last child
  so far; the first failure of the loader ends the loop and the run. The second component
  lists the identifiers the loader was called with.\<close>

fun drawDatasets ::
  "(string \<Rightarrow> 'e + 'g) \<Rightarrow> (string \<rightharpoonup> string) \<Rightarrow> projection \<Rightarrow> 'g element \<Rightarrow> string list
     \<Rightarrow> ('e exn + 'g element) \<times> string list" where
  "drawDatasets load styles proj svg [] = (Inr svg, [])"
| "drawDatasets load styles proj svg (dataset # rest) =
     (case load dataset of
        Inl e \<Rightarrow> (Inl (Thrown e), [dataset])
      | Inr mapData \<Rightarrow>
          (case drawDatasets load styles proj (appendChild svg (mapPath styles proj mapData)) rest of
             (r, loaded) \<Rightarrow> (r, dataset # loaded)))"

text \<open>The options object: every field may be absent. (\<open>output_path\<close> is the field
  \<open>output\<close> of the source.)\<close>

record options =
  projection :: "string option"
  mapdata :: "string option"
  output_path :: "string option"
  center :: "string option"
  bounds :: "string option"
  styles :: "(string \<rightharpoonup> string) option"

text \<open>Lines 43 to 46: the projection is set up, and fitted to the bounds when \<open>bounds\<close> is
  truthy.\<close>

definition renderProjection ::
  "('e, 'g) env \<Rightarrow> string \<Rightarrow> string option \<Rightarrow> string option \<Rightarrow> 'e exn + projection" where
  "renderProjection env projectionType c b =
     (case setupProjection (Number env) projectionType c of
        Inl e \<Rightarrow> Inl e
      | Inr proj \<Rightarrow>
          (case b of
             None \<Rightarrow> Inr proj
           | Some bs \<Rightarrow>
               (if truthy (Some bs) then applyBounds (Number env) (fit env) proj bs
                else Inr proj)))"

text \<open>Line 27: the destructuring of the options with its defaults. Line 30: the list of
  dataset identifiers.\<close>

definition projectionType :: "options \<Rightarrow> string" where
  "projectionType opts = (case projection opts of None \<Rightarrow> ''WB'' | Some p \<Rightarrow> p)"

definition mapdataText :: "options \<Rightarrow> string" where
  "mapdataText opts = (case mapdata opts of None \<Rightarrow> ''50mcoastline'' | Some m \<Rightarrow> m)"

definition outputFile :: "options \<Rightarrow> string" where
  "outputFile opts = (case output_path opts of None \<Rightarrow> ''map.svg'' | Some f \<Rightarrow> f)"

definition datasets :: "options \<Rightarrow> string list" where
  "datasets opts = map trim (split CHR '','' (mapdataText opts))"

text \<open>The result of a run is the document returned or the value thrown, together with the
  calls made to the loader and the file system. The merged styles always have the key
  \<open>showgraticules\<close>, so the \<open>TypeError\<close> of calling \<open>toLowerCase\<close> on \<open>undefined\<close> is a
  branch that no run takes.\<close>

definition generateMap ::
  "('e, 'g) env \<Rightarrow> options \<Rightarrow> ('e exn + 'g element) \<times> 'g call list" where
  "generateMap env opts =
     (let st = mergeStyles (styles opts);
          svg = createSVG
      in case renderProjection env (projectionType opts) (center opts) (bounds opts) of
           Inl e \<Rightarrow> (Inl e, [])
         | Inr proj \<Rightarrow>
             (let svg1 = appendChild svg (defs proj);
                  svg2 = appendChild svg1 (background st)
              in case st ''showgraticules'' of
                   None \<Rightarrow> (Inl TypeError, [])
                 | Some showgraticules \<Rightarrow>
                     (let svg3 =
                            (if toLowerCase showgraticules = ''true''
                             then appendChild svg2 (graticulePath proj) else svg2)
                      in case drawDatasets (loadDataset env) st proj svg3 (datasets opts) of
                           (Inl e, loaded) \<Rightarrow> (Inl e, map Load loaded)
                         | (Inr svgContent, loaded) \<Rightarrow>
                             (case writeFile env (outputFile opts) svgContent of
                                Some e \<Rightarrow>
                                  (Inl (Thrown e),
                                   map Load loaded @ [Write (outputFile opts) svgContent])
                              | None \<Rightarrow>
                                  (Inr svgContent,
                                   map Load loaded @ [Write (outputFile opts) svgContent])))))"

subsection \<open>An instance of \<open>Number\<close>\<close>

text \<open>The theorems below hold for every function in the place of the built-in \<open>Number\<close>.
  To evaluate the module on concrete strings, \<open>Number_ascii\<close> follows the grammar the
  language gives for the conversion of a string to a number: optional white space around
  nothing (the value \<open>0\<close>), around a binary, octal or hexadecimal integer with its
  prefix, or around an optionally signed decimal that is \<open>Infinity\<close> or digits with an
  optional fraction and an optional exponent; every other string is \<open>NaN\<close>. The value is
  the exact one: the rounding to a double is not modelled, and negative zero is zero.\<close>

definition digitValue :: "char \<Rightarrow> nat option" where
  "digitValue c =
     map_of (zip ''0123456789abcdefABCDEF''
       [0, 1, 2, 3, 4, 5, 6, 7, 8, 9, 10, 11, 12, 13, 14, 15, 10, 11, 12, 13, 14, 15]) c"

fun digitsValue :: "nat \<Rightarrow> nat \<Rightarrow> string \<Rightarrow> nat option" where
  "digitsValue radix acc [] = Some acc"
| "digitsValue radix acc (c # cs) =
     (case digitValue c of
        None \<Rightarrow> None
      | Some d \<Rightarrow> if d < radix then digitsValue radix (acc * radix + d) cs else None)"

definition digits :: "nat \<Rightarrow> string \<Rightarrow> nat option" where
  "digits radix s = (if s = [] then None else digitsValue radix 0 s)"

definition isDigit :: "char \<Rightarrow> bool" where
  "isDigit c = (c \<in> set ''0123456789'')"

definition integerLiteral :: "nat \<Rightarrow> string \<Rightarrow> number" where
  "integerLiteral radix s =
     (case digits radix s of None \<Rightarrow> NaN | Some n \<Rightarrow> Finite (of_nat n))"

definition exponentPart :: "string \<Rightarrow> int option" where
  "exponentPart s =
     (case s of
        [] \<Rightarrow> Some 0
      | c # r \<Rightarrow>
          if c = CHR ''e'' \<or> c = CHR ''E'' then
            (case r of
               [] \<Rightarrow> None
             | g # d \<Rightarrow>
                 if g = CHR ''-'' then map_option (\<lambda>n. - int n) (digits 10 d)
                 else if g = CHR ''+'' then map_option int (digits 10 d)
                 else map_option int (digits 10 r))
          else None)"

definition unsignedDecimal :: "string \<Rightarrow> number" where
  "unsignedDecimal u =
     (if u = ''Infinity'' then PosInfinity
      else
        (let ip = takeWhile isDigit u;
             r1 = dropWhile isDigit u;
             dot = (r1 \<noteq> [] \<and> hd r1 = CHR ''.'');
             fp = (if dot then takeWhile isDigit (tl r1) else []);
             r2 = (if dot then dropWhile isDigit (tl r1) else r1)
         in if ip = [] \<and> fp = [] then NaN
            else
              (case (digitsValue 10 0 (ip @ fp), exponentPart r2) of
                 (Some m, Some e) \<Rightarrow>
                   Finite
                     (if 0 \<le> e then of_nat m * 10 ^ nat e / 10 ^ length fp
                      else of_nat m / (10 ^ nat (- e) * 10 ^ length fp))
               | _ \<Rightarrow> NaN)))"

fun negate :: "number \<Rightarrow> number" where
  "negate NaN = NaN"
| "negate PosInfinity = NegInfinity"
| "negate NegInfinity = PosInfinity"
| "negate (Finite q) = Finite (- q)"

definition Number_ascii :: "string \<Rightarrow> number" where
  "Number_ascii s =
     (case trim s of
        [] \<Rightarrow> Finite 0
      | c # r \<Rightarrow>
          if c = CHR ''0'' \<and> r \<noteq> [] \<and> hd r \<in> set ''xX'' then integerLiteral 16 (tl r)
          else if c = CHR ''0'' \<and> r \<noteq> [] \<and> hd r \<in> set ''oO'' then integerLiteral 8 (tl r)
          else if c = CHR ''0'' \<and> r \<noteq> [] \<and> hd r \<in> set ''bB'' then integerLiteral 2 (tl r)
          else if c = CHR ''-'' then negate (unsignedDecimal r)
          else if c = CHR ''+'' then unsignedDecimal r
          else unsignedDecimal (c # r))"

text \<open>A sample of the collaborators for evaluation: a fitting that returns the scale
  \<open>150\<close> and, as the translation, the first position of the first ring it is given; a
  loader that knows the datasets \<open>a\<close>, \<open>b\<close> and \<open>c\<close>; and a file system that refuses the
  empty file name. The collaborators fail with a message.\<close>

definition fit_sample :: fitting where
  "fit_sample proj ext obj =
     (case obj of
        Feature (Polygon rings) \<Rightarrow>
          (case rings of
             ((Some lon, Some lat) # _) # _ \<Rightarrow> (Finite 150, lon, lat)
           | _ \<Rightarrow> (NaN, NaN, NaN)))"

definition env_sample :: "(string, nat) env" where
  "env_sample =
     \<lparr>Number = Number_ascii,
      fit = fit_sample,
      loadDataset =
        (\<lambda>d. if d = ''a'' then Inr 1 else if d = ''b'' then Inr 2
              else if d = ''c'' then Inr 3 else Inl (''no dataset '' @ d)),
      writeFile = (\<lambda>f doc. if f = [] then Some ''no file name'' else None)\<rparr>"

text \<open>The projection \<open>setupProjection\<close> makes for \<open>WB\<close> when no center is given.\<close>

definition waterman_sample :: projection where
  "waterman_sample =
     \<lparr>kind = geoWaterman, scale = Some (Finite 120),
      translate = Some (Finite 600, Finite 400), rotate = None\<rparr>"

text \<open>The options object with no field set.\<close>

definition opts_sample :: options where
  "opts_sample =
     \<lparr>projection = None, mapdata = None, output_path = None, center = None, bounds = None,
      styles = None\<rparr>"

subsection \<open>Notions of the specification\<close>

text \<open>Two strings are equal case-insensitively when they have the same length and, place by
  place, the same character or the two cases of one letter.\<close>

definition sameLetter :: "char \<Rightarrow> char \<Rightarrow> bool" where
  "sameLetter a b =
     (a = b \<or> (a, b) \<in> set (zip lower_letters upper_letters)
            \<or> (b, a) \<in> set (zip lower_letters upper_letters))"

definition equalsIgnoreCase :: "string \<Rightarrow> string \<Rightarrow> bool" where
  "equalsIgnoreCase s t = list_all2 sameLetter s t"

text \<open>The elements of a document in document order, and among them the graticule paths and
  the dataset paths, told apart by what is bound to them.\<close>

fun elements :: "'g element \<Rightarrow> 'g element list" where
  "elements (Element t d a cs) = Element t d a cs # concat (map elements cs)"

fun isGraticule :: "'g element \<Rightarrow> bool" where
  "isGraticule (Element t (Some (Graticule st)) a cs) = True"
| "isGraticule _ = False"

fun isMapPath :: "'g element \<Rightarrow> bool" where
  "isMapPath (Element t (Some (MapData g)) a cs) = True"
| "isMapPath _ = False"

definition graticulePaths :: "'g element \<Rightarrow> 'g element list" where
  "graticulePaths doc = filter isGraticule (elements doc)"

definition mapPaths :: "'g element \<Rightarrow> 'g element list" where
  "mapPaths doc = filter isMapPath (elements doc)"

text \<open>The output document as the specification lists its content: the \<open>defs\<close> with the
  sphere path and the clip path, the background \<open>use\<close>, the graticule path when there is
  one, and a path for each dataset.\<close>

definition specDocument ::
  "(string \<rightharpoonup> string) \<Rightarrow> projection \<Rightarrow> bool \<Rightarrow> 'g list \<Rightarrow> 'g element" where
  "specDocument st proj grat gs =
     Element ''svg'' None
       [(''width'', Str ''1200''), (''height'', Str ''800''),
        (''viewBox'', Str ''0 0 1200 800'')]
       ([defs proj, background st] @ (if grat then [graticulePath proj] else [])
          @ map (mapPath st proj) gs)"

section \<open>Properties\<close>

subsection \<open>Case-insensitive equality and the case mappings\<close>

lemmas letter_defs =
  sameLetter_def toUpperCase_char_def toLowerCase_char_def lower_letters_def upper_letters_def

lemma sameLetter_W: "sameLetter a CHR ''W'' \<longleftrightarrow> toUpperCase_char a = CHR ''W''"
  by (simp add: letter_defs)

lemma sameLetter_B: "sameLetter a CHR ''B'' \<longleftrightarrow> toUpperCase_char a = CHR ''B''"
  by (simp add: letter_defs)

lemma sameLetter_3: "sameLetter a CHR ''3'' \<longleftrightarrow> toUpperCase_char a = CHR ''3''"
  by (simp add: letter_defs)

lemma equalsIgnoreCase_WB: "equalsIgnoreCase p ''WB'' \<longleftrightarrow> toUpperCase p = ''WB''"
  by (auto simp add: equalsIgnoreCase_def toUpperCase_def list_all2_Cons2 map_eq_Cons_conv
      sameLetter_W sameLetter_B)

lemma equalsIgnoreCase_W3: "equalsIgnoreCase p ''W3'' \<longleftrightarrow> toUpperCase p = ''W3''"
  by (auto simp add: equalsIgnoreCase_def toUpperCase_def list_all2_Cons2 map_eq_Cons_conv
      sameLetter_W sameLetter_3)

lemma sameLetter_false:
  "sameLetter c CHR ''f'' \<longleftrightarrow> toLowerCase_char c = CHR ''f''"
  "sameLetter c CHR ''a'' \<longleftrightarrow> toLowerCase_char c = CHR ''a''"
  "sameLetter c CHR ''l'' \<longleftrightarrow> toLowerCase_char c = CHR ''l''"
  "sameLetter c CHR ''s'' \<longleftrightarrow> toLowerCase_char c = CHR ''s''"
  "sameLetter c CHR ''e'' \<longleftrightarrow> toLowerCase_char c = CHR ''e''"
  by (simp_all add: letter_defs)

lemma equalsIgnoreCase_false:
  "equalsIgnoreCase v ''false'' \<longleftrightarrow> toLowerCase v = ''false''"
  by (auto simp add: equalsIgnoreCase_def toLowerCase_def list_all2_Cons2 map_eq_Cons_conv
      sameLetter_false)


subsection \<open>The dataset loop and the shape of a run\<close>

lemma drawDatasets_loaded:
  "map load ds = map Inr gs \<Longrightarrow>
   drawDatasets load st proj svg ds =
     (Inr (Element (tag svg) (datum svg) (attrs svg) (children svg @ map (mapPath st proj) gs)), ds)"
proof (induction ds arbitrary: gs svg)
  case Nil
  then show ?case by (cases svg) simp
next
  case (Cons d ds)
  then obtain g gs' where gs: "gs = g # gs'" "load d = Inr g" "map load ds = map Inr gs'"
    by (cases gs) auto
  show ?case
    using Cons.IH [OF gs(3), of "appendChild svg (mapPath st proj g)"] gs
    by (simp add: appendChild_def)
qed

lemma drawDatasets_failed:
  "map load ds1 = map Inr gs \<Longrightarrow> load d = Inl e \<Longrightarrow>
   drawDatasets load st proj svg (ds1 @ d # ds2) = (Inl (Thrown e), ds1 @ [d])"
proof (induction ds1 arbitrary: gs svg)
  case Nil
  then show ?case by simp
next
  case (Cons a ds1)
  then obtain g gs' where gs: "gs = g # gs'" "load a = Inr g" "map load ds1 = map Inr gs'"
    by (cases gs) auto
  show ?case
    using Cons.IH [OF gs(3) Cons.prems(2), of "appendChild svg (mapPath st proj g)"] gs
    by simp
qed

lemma drawDatasets_Inr:
  "drawDatasets load st proj svg ds = (Inr svg', l) \<Longrightarrow> \<exists>gs. map load ds = map Inr gs"
proof (induction ds arbitrary: svg l)
  case Nil
  then show ?case by simp
next
  case (Cons d ds)
  show ?case
  proof (cases "load d")
    case (Inl e)
    with Cons.prems show ?thesis by simp
  next
    case (Inr g)
    obtain r l' where rl: "drawDatasets load st proj (appendChild svg (mapPath st proj g)) ds = (r, l')"
      by (cases "drawDatasets load st proj (appendChild svg (mapPath st proj g)) ds")
    with Cons.prems Inr have "r = Inr svg'" by simp
    with Cons.IH rl obtain gs where "map load ds = map Inr gs" by blast
    with Inr have "map load (d # ds) = map Inr (g # gs)" by simp
    then show ?thesis by blast
  qed
qed

lemma showgraticules_merged:
  "mergeStyles s ''showgraticules'' =
     Some (case (case s of None \<Rightarrow> Map.empty | Some m \<Rightarrow> m) ''showgraticules'' of
             None \<Rightarrow> ''true'' | Some v \<Rightarrow> v)"
  by (simp add: mergeStyles_def DEFAULT_STYLES_def map_add_def split: option.splits)

lemma generateMap_loaded:
  assumes "renderProjection env (projectionType opts) (center opts) (bounds opts) = Inr proj"
    and "mergeStyles (styles opts) ''showgraticules'' = Some v"
    and "map (loadDataset env) (datasets opts) = map Inr gs"
    and "doc = specDocument (mergeStyles (styles opts)) proj (toLowerCase v = ''true'') gs"
  shows "generateMap env opts =
           ((case writeFile env (outputFile opts) doc of
               None \<Rightarrow> Inr doc | Some e \<Rightarrow> Inl (Thrown e)),
            map Load (datasets opts) @ [Write (outputFile opts) doc])"
proof (cases "toLowerCase v = ''true''")
  case True
  with assms(1,2) show ?thesis
    unfolding assms(4)
    by (simp add: generateMap_def drawDatasets_loaded [OF assms(3)] specDocument_def
        appendChild_def createSVG_def Let_def split: option.splits)
next
  case False
  with assms(1,2) show ?thesis
    unfolding assms(4)
    by (simp add: generateMap_def drawDatasets_loaded [OF assms(3)] specDocument_def
        appendChild_def createSVG_def Let_def split: option.splits)
qed

lemma generateMap_load_failed:
  assumes "renderProjection env (projectionType opts) (center opts) (bounds opts) = Inr proj"
    and "datasets opts = ds1 @ d # ds2"
    and "map (loadDataset env) ds1 = map Inr gs"
    and "loadDataset env d = Inl e"
  shows "generateMap env opts = (Inl (Thrown e), map Load (ds1 @ [d]))"
  using assms(1,2) showgraticules_merged [of "styles opts"]
  by (simp add: generateMap_def drawDatasets_failed [OF assms(3,4)] Let_def)

lemma generateMap_Inr:
  assumes "generateMap env opts = (Inr doc, tr)"
  shows "\<exists>proj gs v.
           renderProjection env (projectionType opts) (center opts) (bounds opts) = Inr proj \<and>
           mergeStyles (styles opts) ''showgraticules'' = Some v \<and>
           map (loadDataset env) (datasets opts) = map Inr gs \<and>
           doc = specDocument (mergeStyles (styles opts)) proj (toLowerCase v = ''true'') gs \<and>
           writeFile env (outputFile opts) doc = None \<and>
           tr = map Load (datasets opts) @ [Write (outputFile opts) doc]"
proof -
  obtain v where v: "mergeStyles (styles opts) ''showgraticules'' = Some v"
    using showgraticules_merged by blast
  from assms obtain proj where
    proj: "renderProjection env (projectionType opts) (center opts) (bounds opts) = Inr proj"
    by (cases "renderProjection env (projectionType opts) (center opts) (bounds opts)")
       (simp_all add: generateMap_def)
  define svg3 :: "'b element" where "svg3 =
     (if toLowerCase v = ''true''
      then appendChild (appendChild (appendChild createSVG (defs proj))
             (background (mergeStyles (styles opts)))) (graticulePath proj)
      else appendChild (appendChild createSVG (defs proj)) (background (mergeStyles (styles opts))))"
  obtain r l where rl: "drawDatasets (loadDataset env) (mergeStyles (styles opts)) proj svg3 (datasets opts) = (r, l)"
    by (cases "drawDatasets (loadDataset env) (mergeStyles (styles opts)) proj svg3 (datasets opts)")
  have gm: "generateMap env opts =
     (case r of Inl e \<Rightarrow> (Inl e, map Load l)
      | Inr svgContent \<Rightarrow>
          (case writeFile env (outputFile opts) svgContent of
             Some e \<Rightarrow> (Inl (Thrown e), map Load l @ [Write (outputFile opts) svgContent])
           | None \<Rightarrow> (Inr svgContent, map Load l @ [Write (outputFile opts) svgContent])))"
    using proj v rl by (simp add: generateMap_def svg3_def Let_def split: sum.splits)
  with assms obtain svgContent where r: "r = Inr svgContent"
    by (cases r) auto
  from rl r obtain gs where gs: "map (loadDataset env) (datasets opts) = map Inr gs"
    using drawDatasets_Inr by blast
  define doc' where "doc' = (specDocument (mergeStyles (styles opts)) proj (toLowerCase v = ''true'') gs :: 'b element)"
  have "generateMap env opts =
           ((case writeFile env (outputFile opts) doc' of
               None \<Rightarrow> Inr doc' | Some e \<Rightarrow> Inl (Thrown e)),
            map Load (datasets opts) @ [Write (outputFile opts) doc'])"
    using generateMap_loaded [OF proj v gs] doc'_def by blast
  with assms have "doc = doc' \<and> writeFile env (outputFile opts) doc' = None
      \<and> tr = map Load (datasets opts) @ [Write (outputFile opts) doc']"
    by (cases "writeFile env (outputFile opts) doc'") auto
  with proj v gs doc'_def show ?thesis by blast
qed

subsection \<open>The paths of the specified document\<close>

lemma elements_mapPath: "elements (mapPath st proj g) = [mapPath st proj g]"
  by (simp add: mapPath_def)

lemma elements_mapPaths:
  "concat (map (elements \<circ> mapPath st proj) gs) = map (mapPath st proj) gs"
  by (induction gs) (simp_all add: elements_mapPath)

lemma isMapPath_mapPath: "isMapPath (mapPath st proj g)"
  by (simp add: mapPath_def)

lemma isGraticule_mapPath: "\<not> isGraticule (mapPath st proj g)"
  by (simp add: mapPath_def)

lemma filter_mapPaths:
  "filter isMapPath (map (mapPath st proj) gs) = map (mapPath st proj) gs"
  "filter isGraticule (map (mapPath st proj) gs) = []"
  by (induction gs) (simp_all add: isMapPath_mapPath isGraticule_mapPath)

lemma mapPaths_specDocument:
  "mapPaths (specDocument st proj g gs) = map (mapPath st proj) gs"
  by (simp add: mapPaths_def specDocument_def elements_mapPaths filter_mapPaths
      defs_def background_def graticulePath_def)

lemma graticulePaths_specDocument:
  "graticulePaths (specDocument st proj g gs) = (if g then [graticulePath proj] else [])"
  by (simp add: graticulePaths_def specDocument_def elements_mapPaths filter_mapPaths
      defs_def background_def graticulePath_def)

subsection \<open>Parsed components, bounds and center\<close>

lemma isNaN_Some: "isNaN (Some n) \<longleftrightarrow> n = NaN"
  by (cases n) simp_all

lemma split_two_nonempty: "split sep s = a # b # r \<Longrightarrow> s \<noteq> []"
  by (cases s) auto

lemma item_four:
  "item (a # b # c # d # r) 0 = Some a" "item (a # b # c # d # r) 1 = Some b"
  "item (a # b # c # d # r) 2 = Some c" "item (a # b # c # d # r) 3 = Some d"
  by (simp_all add: eval_nat_numeral)

lemma applyBounds_parts:
  assumes "map N (split CHR '','' b) = n1 # n2 # n3 # n4 # extra"
    and "n1 \<noteq> NaN" and "n2 \<noteq> NaN" and "n3 \<noteq> NaN" and "n4 \<noteq> NaN"
  shows "applyBounds N f q b =
           Inr (fitExtent f q ((Finite 0, Finite 0), (Finite 1200, Finite 800))
                  (Feature (Polygon
                     [[(Some n3, Some n1), (Some n3, Some n2), (Some n4, Some n2),
                       (Some n4, Some n1), (Some n3, Some n1)]])))"
  using assms by (simp add: applyBounds_def item_four isNaN_Some WIDTH_def HEIGHT_def Let_def)

lemma applyBounds_invalid:
  assumes "i < 4" and "isNaN (item (map N (split CHR '','' b)) i)"
  shows "applyBounds N f q b =
           Inl (Error ''Invalid bounds format. Expected: minLat,maxLat,minLon,maxLon'')"
proof -
  from assms(1) have "i = 0 \<or> i = 1 \<or> i = 2 \<or> i = 3" by arith
  with assms(2) show ?thesis by (auto simp add: applyBounds_def)
qed

lemma setupProjection_None_rotate:
  "setupProjection N p None = Inr q \<Longrightarrow> rotate q = None"
  by (auto simp add: setupProjection_def new_projection_def Let_def split: if_splits)

lemma setupProjection_center:
  assumes "(setupProjection N p None :: 'e exn + projection) = Inr q"
  shows "(setupProjection N p (Some c) :: 'e exn + projection) =
           (if c \<noteq> [] \<and> \<not> isNaN (item (map N (split CHR '','' c)) 0)
                 \<and> \<not> isNaN (item (map N (split CHR '','' c)) 1)
            then Inr (q\<lparr>rotate := Some (item (map N (split CHR '','' c)) 1,
                                       item (map N (split CHR '','' c)) 0, Some (Finite 0))\<rparr>)
            else Inr q)"
  using assms by (auto simp add: setupProjection_def Let_def split: if_splits)


subsection \<open>Evaluation of the instance\<close>

lemmas num_simps =
  Number_ascii_def trim_def isWhiteSpace_def integerLiteral_def digits_def digitValue_def
  unsignedDecimal_def isDigit_def exponentPart_def

lemma setup_WB_sample:
  "(setupProjection Number_ascii ''WB'' None :: 'e exn + projection) = Inr waterman_sample"
  by (simp add: setupProjection_def toUpperCase_def letter_defs new_projection_def
      waterman_sample_def WIDTH_def HEIGHT_def)

lemma render_sample:
  "renderProjection env_sample (projectionType (opts_sample\<lparr>mapdata := md, styles := sty\<rparr>))
     (center (opts_sample\<lparr>mapdata := md, styles := sty\<rparr>))
     (bounds (opts_sample\<lparr>mapdata := md, styles := sty\<rparr>)) = Inr waterman_sample"
  by (simp add: renderProjection_def opts_sample_def projectionType_def env_sample_def
      setup_WB_sample)

lemma run_sample:
  assumes "mergeStyles sty ''showgraticules'' = Some v"
    and "doc = specDocument (mergeStyles sty) waterman_sample (toLowerCase v = ''true'') [3]"
  shows "generateMap env_sample (opts_sample\<lparr>mapdata := Some ''c'', styles := sty\<rparr>) =
           (Inr doc, [Load ''c'', Write ''map.svg'' doc])"
proof -
  let ?o = "opts_sample\<lparr>mapdata := Some ''c'', styles := sty\<rparr>"
  have d: "datasets ?o = [''c'']"
    by (simp add: datasets_def mapdataText_def trim_def isWhiteSpace_def)
  have l: "map (loadDataset env_sample) (datasets ?o) = map Inr [3]"
    by (simp add: d env_sample_def)
  have o: "outputFile ?o = ''map.svg''"
    by (simp add: outputFile_def opts_sample_def)
  have w: "writeFile env_sample ''map.svg'' doc = None"
    by (simp add: env_sample_def)
  have a1: "mergeStyles (styles ?o) ''showgraticules'' = Some v"
    using assms(1) by simp
  have a2: "doc = specDocument (mergeStyles (styles ?o)) waterman_sample
                    (toLowerCase v = ''true'') [3]"
    using assms(2) by simp
  from generateMap_loaded [OF render_sample a1 l a2] show ?thesis
    by (simp add: d o w)
qed

section \<open>The claims\<close>

subsection \<open>Projection setup\<close>

text \<open>Claim C1. For every projection identifier that equals \<open>WB\<close> case-insensitively,
  \<open>setupProjection\<close> succeeds, whatever the center, and returns a Waterman butterfly
  projection with scale \<open>WIDTH / 10 = 120\<close> and translation \<open>(WIDTH / 2, HEIGHT / 2) =
  (600, 400)\<close>, the canvas center; for every identifier that equals \<open>W3\<close>
  case-insensitively it succeeds and returns a Winkel Tripel projection with scale
  \<open>WIDTH / 6 = 200\<close> and the same translation.\<close>

theorem setupProjection_supported:
  "(equalsIgnoreCase p ''WB'' \<longrightarrow>
      (\<exists>r. (setupProjection N p c :: 'e exn + projection) =
         Inr \<lparr>kind = geoWaterman, scale = Some (Finite 120),
              translate = Some (Finite 600, Finite 400), rotate = r\<rparr>)) \<and>
   (equalsIgnoreCase p ''W3'' \<longrightarrow>
      (\<exists>r. (setupProjection N p c :: 'e exn + projection) =
         Inr \<lparr>kind = geoWinkel3, scale = Some (Finite 200),
              translate = Some (Finite 600, Finite 400), rotate = r\<rparr>)) \<and>
   Finite (WIDTH / 10) = Finite 120 \<and> Finite (WIDTH / 6) = Finite 200 \<and>
   (Finite (WIDTH / 2), Finite (HEIGHT / 2)) = (Finite 600, Finite 400)"
  by (auto simp add: equalsIgnoreCase_WB equalsIgnoreCase_W3 setupProjection_def
      new_projection_def WIDTH_def HEIGHT_def Let_def split: option.splits)

theorem setupProjection_supported_witness:
  "equalsIgnoreCase ''wB'' ''WB'' \<and>
   (setupProjection Number_ascii ''wB'' (Some ''10,20'') :: unit exn + projection) =
     Inr \<lparr>kind = geoWaterman, scale = Some (Finite 120),
          translate = Some (Finite 600, Finite 400),
          rotate = Some (Some (Finite 20), Some (Finite 10), Some (Finite 0))\<rparr> \<and>
   equalsIgnoreCase ''w3'' ''W3'' \<and>
   (setupProjection Number_ascii ''w3'' None :: unit exn + projection) =
     Inr \<lparr>kind = geoWinkel3, scale = Some (Finite 200),
          translate = Some (Finite 600, Finite 400), rotate = None\<rparr>"
proof -
  have wb: "equalsIgnoreCase ''wB'' ''WB''" and w3: "equalsIgnoreCase ''w3'' ''W3''"
    by (simp_all add: equalsIgnoreCase_def letter_defs)
  have r1: "\<exists>r. (setupProjection Number_ascii ''wB'' (Some ''10,20'') :: unit exn + projection) =
         Inr \<lparr>kind = geoWaterman, scale = Some (Finite 120),
              translate = Some (Finite 600, Finite 400), rotate = r\<rparr>"
    using setupProjection_supported [of "''wB''" Number_ascii "Some ''10,20''"] wb by blast
  have r2: "\<exists>r. (setupProjection Number_ascii ''w3'' None :: unit exn + projection) =
         Inr \<lparr>kind = geoWinkel3, scale = Some (Finite 200),
              translate = Some (Finite 600, Finite 400), rotate = r\<rparr>"
    using setupProjection_supported [of "''w3''" Number_ascii None] w3 by blast
  have c1: "rotate (projr (setupProjection Number_ascii ''wB'' (Some ''10,20'') :: unit exn + projection))
      = Some (Some (Finite 20), Some (Finite 10), Some (Finite 0))"
    by (simp add: setupProjection_def toUpperCase_def letter_defs num_simps new_projection_def)
  have c2: "rotate (projr (setupProjection Number_ascii ''w3'' None :: unit exn + projection)) = None"
    by (simp add: setupProjection_def toUpperCase_def letter_defs new_projection_def)
  from r1 c1 r2 c2 wb w3 show ?thesis by auto
qed

text \<open>Claim C2. For every projection identifier that equals neither \<open>WB\<close> nor \<open>W3\<close>
  case-insensitively, \<open>setupProjection\<close> returns no projection: it throws the error whose
  message is \<open>Unsupported projection type: \<close> followed by the identifier as given. A
  render with that identifier fails with the same error, before any dataset is loaded and
  without writing a file.\<close>

theorem unsupported_projection_fails:
  assumes "\<not> equalsIgnoreCase p ''WB''" and "\<not> equalsIgnoreCase p ''W3''"
  shows "(setupProjection N p c :: 'e exn + projection) =
           Inl (Error (''Unsupported projection type: '' @ p)) \<and>
         (projection opts = Some p \<longrightarrow>
            generateMap env opts =
              (Inl (Error (''Unsupported projection type: '' @ p)), ([] :: 'g call list)))"
proof -
  have s: "\<And>N c. (setupProjection N p c :: 'x exn + projection) =
           Inl (Error (''Unsupported projection type: '' @ p))"
    using assms by (simp add: equalsIgnoreCase_WB equalsIgnoreCase_W3 setupProjection_def)
  show ?thesis
    by (simp add: s generateMap_def renderProjection_def projectionType_def)
qed

theorem unsupported_projection_fails_witness:
  "\<not> equalsIgnoreCase ''mercator'' ''WB'' \<and> \<not> equalsIgnoreCase ''mercator'' ''W3'' \<and>
   (setupProjection Number_ascii ''mercator'' (Some ''10,20'') :: string exn + projection) =
     Inl (Error ''Unsupported projection type: mercator'') \<and>
   generateMap env_sample
     \<lparr>projection = Some ''mercator'', mapdata = Some ''a,b'', output_path = None,
      center = None, bounds = None, styles = None\<rparr> =
     (Inl (Error ''Unsupported projection type: mercator''), [])"
proof -
  have a: "\<not> equalsIgnoreCase ''mercator'' ''WB''" and b: "\<not> equalsIgnoreCase ''mercator'' ''W3''"
    by (simp_all add: equalsIgnoreCase_def)
  show ?thesis
    using unsupported_projection_fails [OF a b, of Number_ascii "Some ''10,20''"
        "\<lparr>projection = Some ''mercator'', mapdata = Some ''a,b'', output_path = None,
          center = None, bounds = None, styles = None\<rparr>" env_sample] a b
    by simp
qed

text \<open>Claim C5. For a supported projection identifier and every center string: when the
  first or the second comma-separated component does not parse as a number (or is
  missing), \<open>setupProjection\<close> throws nothing and returns the projection it returns
  without a center, whose rotation was never set; when both components parse as numbers,
  it returns that projection rotated by the triple \<open>[lon, lat, 0]\<close>, that is second
  component, first component, zero, as parsed.\<close>

theorem center_rotation:
  assumes "(setupProjection N p None :: 'e exn + projection) = Inr q"
    and "parts = map N (split CHR '','' c)"
  shows "rotate q = None \<and>
         (isNaN (item parts 0) \<or> isNaN (item parts 1) \<longrightarrow>
            (setupProjection N p (Some c) :: 'e exn + projection) = Inr q) \<and>
         (\<not> isNaN (item parts 0) \<and> \<not> isNaN (item parts 1) \<longrightarrow>
            (setupProjection N p (Some c) :: 'e exn + projection) =
              Inr (q\<lparr>rotate := Some (item parts 1, item parts 0, Some (Finite 0))\<rparr>))"
proof -
  have "c = [] \<Longrightarrow> isNaN (item parts 1)"
    by (simp add: assms(2))
  then show ?thesis
    using setupProjection_None_rotate [OF assms(1)] setupProjection_center [OF assms(1), of c]
    by (auto simp add: assms(2))
qed

theorem center_rotation_witness:
  "(setupProjection Number_ascii ''WB'' None :: unit exn + projection) = Inr waterman_sample \<and>
   isNaN (item (map Number_ascii (split CHR '','' ''abc,50'')) 0) \<and>
   (setupProjection Number_ascii ''WB'' (Some ''abc,50'') :: unit exn + projection) =
     Inr waterman_sample \<and>
   rotate waterman_sample = None \<and>
   \<not> isNaN (item (map Number_ascii (split CHR '','' ''200,50'')) 0) \<and>
   \<not> isNaN (item (map Number_ascii (split CHR '','' ''200,50'')) 1) \<and>
   (setupProjection Number_ascii ''WB'' (Some ''200,50'') :: unit exn + projection) =
     Inr (waterman_sample
            \<lparr>rotate := Some (Some (Finite 50), Some (Finite 200), Some (Finite 0))\<rparr>)"
proof -
  have su: "(setupProjection Number_ascii ''WB'' None :: unit exn + projection) =
              Inr waterman_sample"
    by (simp add: setupProjection_def toUpperCase_def letter_defs new_projection_def
        waterman_sample_def WIDTH_def HEIGHT_def)
  have n: "Number_ascii ''abc'' = NaN" "Number_ascii ''50'' = Finite 50"
    "Number_ascii ''200'' = Finite 200"
    by (simp_all add: num_simps)
  have s1: "map Number_ascii (split CHR '','' ''abc,50'') = [NaN, Finite 50]"
    and s2: "map Number_ascii (split CHR '','' ''200,50'') = [Finite 200, Finite 50]"
    by (simp_all add: n)
  from center_rotation [OF su s1 [symmetric]]
    center_rotation [OF su s2 [symmetric]] su
  show ?thesis
    by (simp add: n)
qed

subsection \<open>Bounds fitting\<close>

text \<open>Claim C3. For every bounds string of four comma-separated components
  \<open>minLat,maxLat,minLon,maxLon\<close> that all parse as numbers, \<open>applyBounds\<close> calls
  \<open>fitExtent\<close> with the extent \<open>[[0, 0], [1200, 800]]\<close> and the polygon whose one ring is
  \<open>(minLon, minLat)\<close>, \<open>(minLon, maxLat)\<close>, \<open>(maxLon, maxLat)\<close>, \<open>(maxLon, minLat)\<close>,
  \<open>(minLon, minLat)\<close>. The projection after the call has the scale and the translation
  that the fitting computed in place of those of the setup; in a render with these bounds
  it is the projection after the setup and the fitting, and every path of the output
  document is drawn with it.\<close>

theorem bounds_fitting:
  assumes "split CHR '','' b = [minLat, maxLat, minLon, maxLon]"
    and "Number (env :: ('e, 'g) env) minLat \<noteq> NaN" and "Number env maxLat \<noteq> NaN"
    and "Number env minLon \<noteq> NaN" and "Number env maxLon \<noteq> NaN"
    and "ext = ((Finite 0, Finite 0), (Finite 1200, Finite 800))"
    and "box = Feature (Polygon
                 [[(Some (Number env minLon), Some (Number env minLat)),
                   (Some (Number env minLon), Some (Number env maxLat)),
                   (Some (Number env maxLon), Some (Number env maxLat)),
                   (Some (Number env maxLon), Some (Number env minLat)),
                   (Some (Number env minLon), Some (Number env minLat))]])"
  shows "(applyBounds (Number env) (fit env) q b :: 'e exn + projection) =
           Inr (fitExtent (fit env) q ext box) \<and>
         (\<exists>k x y. fit env q ext box = (k, x, y) \<and>
            fitExtent (fit env) q ext box = q\<lparr>scale := Some k, translate := Some (x, y)\<rparr>) \<and>
         (bounds opts = Some b \<and>
          (setupProjection (Number env) (projectionType opts) (center opts)
             :: 'e exn + projection) = Inr q \<longrightarrow>
            renderProjection env (projectionType opts) (center opts) (bounds opts) =
              (Inr (fitExtent (fit env) q ext box) :: 'e exn + projection) \<and>
            (\<forall>doc tr. generateMap env opts = (Inr doc, tr) \<longrightarrow>
               (\<exists>g gs. doc = specDocument (mergeStyles (styles opts))
                                 (fitExtent (fit env) q ext box) g gs)))"
proof -
  have ab: "\<And>q. (applyBounds (Number env) (fit env) q b :: 'x exn + projection) =
                  Inr (fitExtent (fit env) q ext box)"
    using applyBounds_parts [of "Number env" b "Number env minLat" "Number env maxLat"
        "Number env minLon" "Number env maxLon" "[]"] assms
    by simp
  have fe: "\<exists>k x y. fit env q ext box = (k, x, y) \<and>
            fitExtent (fit env) q ext box = q\<lparr>scale := Some k, translate := Some (x, y)\<rparr>"
    by (cases "fit env q ext box") (simp add: fitExtent_def)
  have ne: "b \<noteq> []"
    using assms(1) by (rule split_two_nonempty)
  have rp: "renderProjection env (projectionType opts) (center opts) (bounds opts) =
              (Inr (fitExtent (fit env) q ext box) :: 'e exn + projection)"
    if "bounds opts = Some b"
      and "(setupProjection (Number env) (projectionType opts) (center opts)
             :: 'e exn + projection) = Inr q"
    using that ne by (simp add: renderProjection_def ab)
  have gm: "\<exists>g gs. doc = specDocument (mergeStyles (styles opts))
                                 (fitExtent (fit env) q ext box) g gs"
    if "bounds opts = Some b"
      and "(setupProjection (Number env) (projectionType opts) (center opts)
             :: 'e exn + projection) = Inr q"
      and "generateMap env opts = (Inr doc, tr)" for doc tr
    using generateMap_Inr [OF that(3)] rp [OF that(1,2)] by auto
  from ab fe rp gm show ?thesis by blast
qed


theorem bounds_fitting_witness:
  "split CHR '','' ''10,20,30,40'' = [''10'', ''20'', ''30'', ''40''] \<and>
   Number env_sample ''10'' \<noteq> NaN \<and> Number env_sample ''20'' \<noteq> NaN \<and>
   Number env_sample ''30'' \<noteq> NaN \<and> Number env_sample ''40'' \<noteq> NaN \<and>
   (applyBounds (Number env_sample) (fit env_sample) waterman_sample ''10,20,30,40''
      :: string exn + projection) =
     Inr (fitExtent fit_sample waterman_sample
            ((Finite 0, Finite 0), (Finite 1200, Finite 800))
            (Feature (Polygon
               [[(Some (Finite 30), Some (Finite 10)), (Some (Finite 30), Some (Finite 20)),
                 (Some (Finite 40), Some (Finite 20)), (Some (Finite 40), Some (Finite 10)),
                 (Some (Finite 30), Some (Finite 10))]]))) \<and>
   renderProjection env_sample ''WB'' None (Some ''10,20,30,40'') =
     Inr \<lparr>kind = geoWaterman, scale = Some (Finite 150),
          translate = Some (Finite 30, Finite 10), rotate = None\<rparr> \<and>
   generateMap env_sample
     (opts_sample\<lparr>mapdata := Some ''c'', bounds := Some ''10,20,30,40''\<rparr>) =
     (Inr (specDocument (mergeStyles None)
             \<lparr>kind = geoWaterman, scale = Some (Finite 150),
              translate = Some (Finite 30, Finite 10), rotate = None\<rparr> True [3]),
      [Load ''c'',
       Write ''map.svg''
         (specDocument (mergeStyles None)
            \<lparr>kind = geoWaterman, scale = Some (Finite 150),
             translate = Some (Finite 30, Finite 10), rotate = None\<rparr> True [3])])"
proof -
  let ?o = "opts_sample\<lparr>mapdata := Some ''c'', bounds := Some ''10,20,30,40''\<rparr>"
  let ?p = "\<lparr>kind = geoWaterman, scale = Some (Finite 150),
             translate = Some (Finite 30, Finite 10), rotate = None\<rparr>"
  let ?doc = "specDocument (mergeStyles None) ?p True [3] :: nat element"
  have sp: "split CHR '','' ''10,20,30,40'' = [''10'', ''20'', ''30'', ''40'']"
    by simp
  have n: "Number env_sample ''10'' = Finite 10" "Number env_sample ''20'' = Finite 20"
    "Number env_sample ''30'' = Finite 30" "Number env_sample ''40'' = Finite 40"
    by (simp_all add: env_sample_def num_simps)
  have ns: "Number env_sample ''10'' \<noteq> NaN" "Number env_sample ''20'' \<noteq> NaN"
    "Number env_sample ''30'' \<noteq> NaN" "Number env_sample ''40'' \<noteq> NaN"
    by (simp_all add: n)
  have su: "(setupProjection (Number env_sample) ''WB'' None :: string exn + projection) =
              Inr waterman_sample"
    by (simp add: env_sample_def setup_WB_sample)
  have f: "fit env_sample = fit_sample"
    by (simp add: env_sample_def)
  have o: "projectionType ?o = ''WB''" "center ?o = None" "bounds ?o = Some ''10,20,30,40''"
    "styles ?o = None" "outputFile ?o = ''map.svg''" "datasets ?o = [''c'']"
    by (simp_all add: opts_sample_def projectionType_def outputFile_def datasets_def
        mapdataText_def trim_def isWhiteSpace_def)
  note t = bounds_fitting [OF sp ns refl refl, where q = waterman_sample and opts = ?o]
  from t su have ab:
    "(applyBounds (Number env_sample) (fit env_sample) waterman_sample ''10,20,30,40''
      :: string exn + projection) =
     Inr (fitExtent fit_sample waterman_sample
            ((Finite 0, Finite 0), (Finite 1200, Finite 800))
            (Feature (Polygon
               [[(Some (Finite 30), Some (Finite 10)), (Some (Finite 30), Some (Finite 20)),
                 (Some (Finite 40), Some (Finite 20)), (Some (Finite 40), Some (Finite 10)),
                 (Some (Finite 30), Some (Finite 10))]])))"
    by (simp add: n f)
  from t su have rp: "renderProjection env_sample ''WB'' None (Some ''10,20,30,40'') = Inr ?p"
    by (simp add: o n f fitExtent_def fit_sample_def waterman_sample_def)
  have rp': "renderProjection env_sample (projectionType ?o) (center ?o) (bounds ?o) = Inr ?p"
    using rp by (simp add: o)
  have v: "mergeStyles (styles ?o) ''showgraticules'' = Some ''true''"
    by (simp add: o showgraticules_merged)
  have l: "map (loadDataset env_sample) (datasets ?o) = map Inr [3]"
    by (simp add: o env_sample_def)
  have lo: "toLowerCase ''true'' = ''true''"
    by (simp add: toLowerCase_def letter_defs)
  have d: "?doc = specDocument (mergeStyles (styles ?o)) ?p (toLowerCase ''true'' = ''true'') [3]"
    by (simp add: o lo)
  have w: "writeFile env_sample ''map.svg'' ?doc = None"
    by (simp add: env_sample_def)
  have gm: "generateMap env_sample ?o = (Inr ?doc, [Load ''c'', Write ''map.svg'' ?doc])"
    using generateMap_loaded [OF rp' v l d] by (simp add: o w)
  from sp ns ab rp gm show ?thesis
    by blast
qed

text \<open>Claim C4. For every bounds string in which one of the first four comma-separated
  components does not parse as a number (or is missing), \<open>applyBounds\<close> throws the error
  \<open>Invalid bounds format. Expected: minLat,maxLat,minLon,maxLon\<close> and returns no fitted
  projection. A render that is given such a string as its bounds (a non-empty string, which
  is what \<open>if (bounds)\<close> takes as given) and whose projection setup succeeded fails with
  that error, before any dataset is loaded and without writing a file.\<close>

theorem invalid_bounds_fail:
  assumes "\<exists>i<4. isNaN (item (map (Number env) (split CHR '','' b)) i)"
  shows "(applyBounds (Number env) (fit env) q b :: 'e exn + projection) =
           Inl (Error ''Invalid bounds format. Expected: minLat,maxLat,minLon,maxLon'') \<and>
         (bounds opts = Some b \<and> b \<noteq> [] \<and>
          (setupProjection (Number (env :: ('e, 'g) env)) (projectionType opts) (center opts)
             :: 'e exn + projection) = Inr q \<longrightarrow>
            generateMap env opts =
              (Inl (Error ''Invalid bounds format. Expected: minLat,maxLat,minLon,maxLon''),
               []))"
proof -
  from assms obtain i where i: "i < 4" "isNaN (item (map (Number env) (split CHR '','' b)) i)"
    by blast
  have ab: "\<And>q. (applyBounds (Number env) (fit env) q b :: 'x exn + projection) =
           Inl (Error ''Invalid bounds format. Expected: minLat,maxLat,minLon,maxLon'')"
    using applyBounds_invalid [OF i] .
  show ?thesis
    by (simp add: ab generateMap_def renderProjection_def)
qed

theorem invalid_bounds_fail_witness:
  "(\<exists>i<4. isNaN (item (map (Number env_sample) (split CHR '','' ''10,x,30,40'')) i)) \<and>
   (applyBounds (Number env_sample) (fit env_sample) waterman_sample ''10,x,30,40''
      :: string exn + projection) =
     Inl (Error ''Invalid bounds format. Expected: minLat,maxLat,minLon,maxLon'') \<and>
   generateMap env_sample
     \<lparr>projection = None, mapdata = Some ''a,b'', output_path = None, center = None,
      bounds = Some ''10,x,30,40'', styles = None\<rparr> =
     (Inl (Error ''Invalid bounds format. Expected: minLat,maxLat,minLon,maxLon''), [])"
proof -
  have x: "Number env_sample ''x'' = NaN"
    by (simp add: env_sample_def num_simps)
  have "isNaN (item (map (Number env_sample) (split CHR '','' ''10,x,30,40'')) 1)"
    by (simp add: x)
  then have h: "\<exists>i<4. isNaN (item (map (Number env_sample) (split CHR '','' ''10,x,30,40'')) i)"
    by (intro exI [of _ 1]) simp
  have su: "(setupProjection (Number env_sample) ''WB'' None :: string exn + projection) =
              Inr waterman_sample"
    by (simp add: setupProjection_def toUpperCase_def letter_defs new_projection_def
        waterman_sample_def WIDTH_def HEIGHT_def)
  note t = invalid_bounds_fail [OF h, where q = waterman_sample
      and opts = "\<lparr>projection = None, mapdata = Some ''a,b'', output_path = None,
                    center = None, bounds = Some ''10,x,30,40'', styles = None\<rparr>"]
  from t su h show ?thesis
    by (simp add: projectionType_def)
qed

text \<open>Claim C10. Components after those expected are ignored. For every bounds string
  whose first four components parse as numbers, \<open>applyBounds\<close> fits the polygon of the
  first four, whatever follows them; for every center string whose first two components
  parse as numbers, \<open>setupProjection\<close> rotates by the first two, whatever follows them.\<close>

theorem extra_components_ignored:
  "(split CHR '','' b = s1 # s2 # s3 # s4 # extra \<and>
    N s1 \<noteq> NaN \<and> N s2 \<noteq> NaN \<and> N s3 \<noteq> NaN \<and> N s4 \<noteq> NaN \<longrightarrow>
      (applyBounds N f q b :: 'e exn + projection) =
        Inr (fitExtent f q ((Finite 0, Finite 0), (Finite 1200, Finite 800))
               (Feature (Polygon
                  [[(Some (N s3), Some (N s1)), (Some (N s3), Some (N s2)),
                    (Some (N s4), Some (N s2)), (Some (N s4), Some (N s1)),
                    (Some (N s3), Some (N s1))]])))) \<and>
   (split CHR '','' c = t1 # t2 # extra' \<and> N t1 \<noteq> NaN \<and> N t2 \<noteq> NaN \<and>
    (setupProjection N p None :: 'e exn + projection) = Inr q' \<longrightarrow>
      (setupProjection N p (Some c) :: 'e exn + projection) =
        Inr (q'\<lparr>rotate := Some (Some (N t2), Some (N t1), Some (Finite 0))\<rparr>))"
proof (intro conjI impI)
  assume a: "split CHR '','' b = s1 # s2 # s3 # s4 # extra \<and>
    N s1 \<noteq> NaN \<and> N s2 \<noteq> NaN \<and> N s3 \<noteq> NaN \<and> N s4 \<noteq> NaN"
  then have "map N (split CHR '','' b) = N s1 # N s2 # N s3 # N s4 # map N extra"
    by simp
  from applyBounds_parts [OF this] a
  show "(applyBounds N f q b :: 'e exn + projection) =
        Inr (fitExtent f q ((Finite 0, Finite 0), (Finite 1200, Finite 800))
               (Feature (Polygon
                  [[(Some (N s3), Some (N s1)), (Some (N s3), Some (N s2)),
                    (Some (N s4), Some (N s2)), (Some (N s4), Some (N s1)),
                    (Some (N s3), Some (N s1))]])))"
    by blast
next
  assume a: "split CHR '','' c = t1 # t2 # extra' \<and> N t1 \<noteq> NaN \<and> N t2 \<noteq> NaN \<and>
    (setupProjection N p None :: 'e exn + projection) = Inr q'"
  then have ne: "c \<noteq> []"
    using split_two_nonempty by blast
  from a have su: "(setupProjection N p None :: 'e exn + projection) = Inr q'"
    by blast
  from a ne show "(setupProjection N p (Some c) :: 'e exn + projection) =
        Inr (q'\<lparr>rotate := Some (Some (N t2), Some (N t1), Some (Finite 0))\<rparr>)"
    by (simp add: setupProjection_center [OF su] isNaN_Some)
qed

theorem extra_components_ignored_witness:
  "split CHR '','' ''1,2,3,4,5'' = [''1'', ''2'', ''3'', ''4'', ''5''] \<and>
   (applyBounds Number_ascii fit_sample waterman_sample ''1,2,3,4,5''
      :: unit exn + projection) =
     Inr (fitExtent fit_sample waterman_sample
            ((Finite 0, Finite 0), (Finite 1200, Finite 800))
            (Feature (Polygon
               [[(Some (Finite 3), Some (Finite 1)), (Some (Finite 3), Some (Finite 2)),
                 (Some (Finite 4), Some (Finite 2)), (Some (Finite 4), Some (Finite 1)),
                 (Some (Finite 3), Some (Finite 1))]]))) \<and>
   (applyBounds Number_ascii fit_sample waterman_sample ''1,2,3,4,5''
      :: unit exn + projection) =
     applyBounds Number_ascii fit_sample waterman_sample ''1,2,3,4'' \<and>
   split CHR '','' ''10,20,30'' = [''10'', ''20'', ''30''] \<and>
   (setupProjection Number_ascii ''WB'' (Some ''10,20,30'') :: unit exn + projection) =
     Inr (waterman_sample
            \<lparr>rotate := Some (Some (Finite 20), Some (Finite 10), Some (Finite 0))\<rparr>) \<and>
   (setupProjection Number_ascii ''WB'' (Some ''10,20,30'') :: unit exn + projection) =
     setupProjection Number_ascii ''WB'' (Some ''10,20'')"
proof -
  have su: "(setupProjection Number_ascii ''WB'' None :: unit exn + projection) =
              Inr waterman_sample"
    by (simp add: setupProjection_def toUpperCase_def letter_defs new_projection_def
        waterman_sample_def WIDTH_def HEIGHT_def)
  have n: "Number_ascii ''1'' = Finite 1" "Number_ascii ''2'' = Finite 2"
    "Number_ascii ''3'' = Finite 3" "Number_ascii ''4'' = Finite 4"
    "Number_ascii ''10'' = Finite 10" "Number_ascii ''20'' = Finite 20"
    by (simp_all add: num_simps)
  have sb: "split CHR '','' ''1,2,3,4,5'' = [''1'', ''2'', ''3'', ''4'', ''5'']"
    and sb': "split CHR '','' ''1,2,3,4'' = [''1'', ''2'', ''3'', ''4'']"
    and sc: "split CHR '','' ''10,20,30'' = [''10'', ''20'', ''30'']"
    and sc': "split CHR '','' ''10,20'' = [''10'', ''20'']"
    by simp_all
  note t1 = extra_components_ignored [where N = Number_ascii and b = "''1,2,3,4,5''"
      and ?s1.0 = "''1''" and ?s2.0 = "''2''" and ?s3.0 = "''3''" and ?s4.0 = "''4''"
      and extra = "[''5'']" and c = "''10,20,30''" and ?t1.0 = "''10''" and ?t2.0 = "''20''"
      and extra' = "[''30'']" and p = "''WB''" and q' = waterman_sample
      and f = fit_sample and q = waterman_sample, where ?'e = unit]
  note t2 = extra_components_ignored [where N = Number_ascii and b = "''1,2,3,4''"
      and ?s1.0 = "''1''" and ?s2.0 = "''2''" and ?s3.0 = "''3''" and ?s4.0 = "''4''"
      and extra = "[]" and c = "''10,20''" and ?t1.0 = "''10''" and ?t2.0 = "''20''"
      and extra' = "[]" and p = "''WB''" and q' = waterman_sample
      and f = fit_sample and q = waterman_sample, where ?'e = unit]
  from t1 t2 su sb sb' sc sc' show ?thesis
    by (simp add: n)
qed

subsection \<open>Styles, datasets and the graticule\<close>

text \<open>Claim C7. The styles a render uses are the defaults overridden key by key with the
  styles provided: a key that is provided has the provided value, a key that is not
  provided has its default, and the defaults are \<open>linethickness = 1\<close>,
  \<open>linecolor = black\<close>, \<open>outlinethickness = 0.5\<close>, \<open>outlinecolor = black\<close>,
  \<open>showgraticules = true\<close> and \<open>background = white\<close>. The document of a successful
  render is styled with these merged styles.\<close>

theorem styles_merged_over_defaults:
  assumes "provided = (case sty of None \<Rightarrow> Map.empty | Some s \<Rightarrow> s)"
  shows "mergeStyles sty k = (case provided k of Some v \<Rightarrow> Some v | None \<Rightarrow> DEFAULT_STYLES k) \<and>
         (\<forall>v. provided k = Some v \<longrightarrow> mergeStyles sty k = Some v) \<and>
         (provided k = None \<longrightarrow> mergeStyles sty k = DEFAULT_STYLES k) \<and>
         DEFAULT_STYLES k =
           (if k = ''linethickness'' then Some ''1''
            else if k = ''linecolor'' then Some ''black''
            else if k = ''outlinethickness'' then Some ''0.5''
            else if k = ''outlinecolor'' then Some ''black''
            else if k = ''showgraticules'' then Some ''true''
            else if k = ''background'' then Some ''white''
            else None) \<and>
         (styles opts = sty \<and> generateMap env opts = (Inr doc, tr) \<longrightarrow>
            (\<exists>proj g gs. doc = specDocument (mergeStyles sty) proj g gs))"
proof -
  have m: "mergeStyles sty k = (case provided k of Some v \<Rightarrow> Some v | None \<Rightarrow> DEFAULT_STYLES k)"
    by (simp add: mergeStyles_def assms map_add_def)
  have d: "DEFAULT_STYLES k =
           (if k = ''linethickness'' then Some ''1''
            else if k = ''linecolor'' then Some ''black''
            else if k = ''outlinethickness'' then Some ''0.5''
            else if k = ''outlinecolor'' then Some ''black''
            else if k = ''showgraticules'' then Some ''true''
            else if k = ''background'' then Some ''white''
            else None)"
    by (simp add: DEFAULT_STYLES_def)
  have g: "\<exists>proj g gs. doc = specDocument (mergeStyles sty) proj g gs"
    if "styles opts = sty" and "generateMap env opts = (Inr doc, tr)"
    using generateMap_Inr [OF that(2)] that(1) by blast
  from m d g show ?thesis
    by (simp split: option.splits)
qed

theorem styles_merged_over_defaults_witness:
  "mergeStyles (Some [''linecolor'' \<mapsto> ''red'']) ''linecolor'' = Some ''red'' \<and>
   mergeStyles (Some [''linecolor'' \<mapsto> ''red'']) ''background'' = Some ''white'' \<and>
   mergeStyles (Some [''linecolor'' \<mapsto> ''red'']) ''linethickness'' = Some ''1'' \<and>
   generateMap env_sample
     (opts_sample\<lparr>mapdata := Some ''c'', styles := Some [''linecolor'' \<mapsto> ''red'']\<rparr>) =
     (Inr (specDocument (mergeStyles (Some [''linecolor'' \<mapsto> ''red''])) waterman_sample True [3]),
      [Load ''c'',
       Write ''map.svg''
         (specDocument (mergeStyles (Some [''linecolor'' \<mapsto> ''red''])) waterman_sample True
            [3])]) \<and>
   mapPath (mergeStyles (Some [''linecolor'' \<mapsto> ''red''])) waterman_sample (3 :: nat) =
     Element ''path'' (Some (MapData 3))
       [(''d'', GeoPath waterman_sample), (''clip-path'', Str ''url(#clip)''),
        (''fill'', Str ''none''), (''stroke'', Str ''red''), (''stroke-width'', Str ''1'')] []"
proof -
  let ?sty = "Some [''linecolor'' \<mapsto> ''red'']"
  let ?o = "opts_sample\<lparr>mapdata := Some ''c'', styles := ?sty\<rparr>"
  let ?doc = "specDocument (mergeStyles ?sty) waterman_sample True [3] :: nat element"
  have v: "mergeStyles ?sty ''showgraticules'' = Some ''true''"
    by (simp add: showgraticules_merged)
  have lo: "toLowerCase ''true'' = ''true''"
    by (simp add: toLowerCase_def letter_defs)
  have r: "generateMap env_sample ?o = (Inr ?doc, [Load ''c'', Write ''map.svg'' ?doc])"
    using run_sample [OF v] by (simp add: lo)
  have s: "styles ?o = ?sty"
    by simp
  note t1 = styles_merged_over_defaults [OF refl, of ?sty "''linecolor''" ?o env_sample ?doc
      "[Load ''c'', Write ''map.svg'' ?doc]"]
  note t2 = styles_merged_over_defaults [OF refl, of ?sty "''background''" ?o env_sample ?doc
      "[Load ''c'', Write ''map.svg'' ?doc]"]
  note t3 = styles_merged_over_defaults [OF refl, of ?sty "''linethickness''" ?o env_sample ?doc
      "[Load ''c'', Write ''map.svg'' ?doc]"]
  have a: "mergeStyles ?sty ''linecolor'' = Some ''red''"
    using t1 by simp
  have b: "mergeStyles ?sty ''background'' = Some ''white''"
    using t2 by simp
  have c: "mergeStyles ?sty ''linethickness'' = Some ''1''"
    using t3 by simp
  have p: "mapPath (mergeStyles ?sty) waterman_sample (3 :: nat) =
     Element ''path'' (Some (MapData 3))
       [(''d'', GeoPath waterman_sample), (''clip-path'', Str ''url(#clip)''),
        (''fill'', Str ''none''), (''stroke'', Str ''red''), (''stroke-width'', Str ''1'')] []"
    by (simp add: mapPath_def property_def a c)
  from a b c r p show ?thesis
    by blast
qed

text \<open>Claim C6. For every mapdata string the dataset list is the list of its
  comma-separated pieces, each trimmed. In a render whose projection was set up: when the
  loader returns a geometry for every identifier, the loader is called once for each
  identifier, in list order, before the one file write, and the document has exactly one
  dataset path for each identifier, in the order of the list, each drawn from the geometry
  loaded for its identifier; when the loader fails at an identifier after succeeding at
  those before it, the render fails with the loader's failure as it is, the identifiers
  after it are not loaded and nothing is written.\<close>

theorem datasets_drawn_in_order:
  assumes "renderProjection env (projectionType opts) (center opts) (bounds opts) = Inr proj"
    and "mapdata opts = Some m"
  shows "datasets opts = map trim (split CHR '','' m) \<and>
         (map (loadDataset env) (datasets opts) = map Inr gs \<longrightarrow>
            (\<exists>doc. mapPaths doc = map (mapPath (mergeStyles (styles opts)) proj) gs \<and>
                   length (mapPaths doc) = length (datasets opts) \<and>
                   generateMap env opts =
                     ((case writeFile env (outputFile opts) doc of
                         None \<Rightarrow> Inr doc | Some e \<Rightarrow> Inl (Thrown e)),
                      map Load (datasets opts) @ [Write (outputFile opts) doc]))) \<and>
         (datasets opts = ds1 @ d # ds2 \<and> map (loadDataset env) ds1 = map Inr gs1 \<and>
          loadDataset env d = Inl e \<longrightarrow>
            generateMap env opts = (Inl (Thrown e), map Load (ds1 @ [d])))"
proof (intro conjI impI)
  show "datasets opts = map trim (split CHR '','' m)"
    using assms(2) by (simp add: datasets_def mapdataText_def)
next
  assume l: "map (loadDataset env) (datasets opts) = map Inr gs"
  obtain v where v: "mergeStyles (styles opts) ''showgraticules'' = Some v"
    using showgraticules_merged by blast
  define doc where
    "doc = specDocument (mergeStyles (styles opts)) proj (toLowerCase v = ''true'') gs"
  have "length (map (loadDataset env) (datasets opts)) = length (map Inr gs :: ('a + 'b) list)"
    using l by simp
  then have len: "length gs = length (datasets opts)"
    by simp
  have "mapPaths doc = map (mapPath (mergeStyles (styles opts)) proj) gs"
    by (simp add: doc_def mapPaths_specDocument)
  moreover from this len have "length (mapPaths doc) = length (datasets opts)"
    by simp
  moreover have "generateMap env opts =
                     ((case writeFile env (outputFile opts) doc of
                         None \<Rightarrow> Inr doc | Some e \<Rightarrow> Inl (Thrown e)),
                      map Load (datasets opts) @ [Write (outputFile opts) doc])"
    using generateMap_loaded [OF assms(1) v l doc_def] .
  ultimately show "\<exists>doc. mapPaths doc = map (mapPath (mergeStyles (styles opts)) proj) gs \<and>
                   length (mapPaths doc) = length (datasets opts) \<and>
                   generateMap env opts =
                     ((case writeFile env (outputFile opts) doc of
                         None \<Rightarrow> Inr doc | Some e \<Rightarrow> Inl (Thrown e)),
                      map Load (datasets opts) @ [Write (outputFile opts) doc])"
    by blast
next
  assume "datasets opts = ds1 @ d # ds2 \<and> map (loadDataset env) ds1 = map Inr gs1 \<and>
          loadDataset env d = Inl e"
  then show "generateMap env opts = (Inl (Thrown e), map Load (ds1 @ [d]))"
    using generateMap_load_failed [OF assms(1)] by blast
qed


theorem datasets_drawn_in_order_witness:
  "mapdata (opts_sample\<lparr>mapdata := Some ''a, b ,c'', styles := None\<rparr>) = Some ''a, b ,c'' \<and>
   datasets (opts_sample\<lparr>mapdata := Some ''a, b ,c'', styles := None\<rparr>) = [''a'', ''b'', ''c''] \<and>
   map (loadDataset env_sample) [''a'', ''b'', ''c''] = map Inr [1, 2, 3] \<and>
   (\<exists>doc. mapPaths doc =
            [mapPath (mergeStyles None) waterman_sample 1,
             mapPath (mergeStyles None) waterman_sample 2,
             mapPath (mergeStyles None) waterman_sample 3] \<and>
          generateMap env_sample (opts_sample\<lparr>mapdata := Some ''a, b ,c'', styles := None\<rparr>) =
            (Inr doc, [Load ''a'', Load ''b'', Load ''c'', Write ''map.svg'' doc])) \<and>
   datasets (opts_sample\<lparr>mapdata := Some ''a,zz,b'', styles := None\<rparr>) = [''a''] @ ''zz'' # [''b''] \<and>
   loadDataset env_sample ''zz'' = Inl ''no dataset zz'' \<and>
   generateMap env_sample (opts_sample\<lparr>mapdata := Some ''a,zz,b'', styles := None\<rparr>) =
     (Inl (Thrown ''no dataset zz''), [Load ''a'', Load ''zz''])"
proof -
  let ?o1 = "opts_sample\<lparr>mapdata := Some ''a, b ,c'', styles := None\<rparr>"
  let ?o2 = "opts_sample\<lparr>mapdata := Some ''a,zz,b'', styles := None\<rparr>"
  have m1: "mapdata ?o1 = Some ''a, b ,c''" and m2: "mapdata ?o2 = Some ''a,zz,b''"
    by simp_all
  have d1: "datasets ?o1 = [''a'', ''b'', ''c'']"
    by (simp add: datasets_def mapdataText_def trim_def isWhiteSpace_def)
  have d2: "datasets ?o2 = [''a''] @ ''zz'' # [''b'']"
    by (simp add: datasets_def mapdataText_def trim_def isWhiteSpace_def)
  have l1: "map (loadDataset env_sample) (datasets ?o1) = map Inr [1, 2, 3]"
    by (simp add: d1 env_sample_def)
  have l2: "map (loadDataset env_sample) [''a''] = map Inr [1]"
    and l3: "loadDataset env_sample ''zz'' = Inl ''no dataset zz''"
    by (simp_all add: env_sample_def)
  have w: "\<And>doc. writeFile env_sample ''map.svg'' doc = None"
    by (simp add: env_sample_def)
  have o: "outputFile ?o1 = ''map.svg''"
    by (simp add: outputFile_def opts_sample_def)
  note t1 = datasets_drawn_in_order [OF render_sample m1, where gs = "[1, 2, 3]"]
  note t2 = datasets_drawn_in_order [OF render_sample m2, where ?ds1.0 = "[''a'']"
      and d = "''zz''" and ?ds2.0 = "[''b'']" and ?gs1.0 = "[1]" and e = "''no dataset zz''"]
  from t1 l1 have
    "\<exists>doc. mapPaths doc = map (mapPath (mergeStyles (styles ?o1)) waterman_sample) [1, 2, 3] \<and>
           generateMap env_sample ?o1 =
             ((case writeFile env_sample (outputFile ?o1) doc of
                 None \<Rightarrow> Inr doc | Some e \<Rightarrow> Inl (Thrown e)),
              map Load (datasets ?o1) @ [Write (outputFile ?o1) doc])"
    by blast
  then have e1:
    "\<exists>doc. mapPaths doc =
            [mapPath (mergeStyles None) waterman_sample 1,
             mapPath (mergeStyles None) waterman_sample 2,
             mapPath (mergeStyles None) waterman_sample 3] \<and>
          generateMap env_sample ?o1 =
            (Inr doc, [Load ''a'', Load ''b'', Load ''c'', Write ''map.svg'' doc])"
    by (simp add: w d1 o)
  from t2 d2 l2 l3 have e2:
    "generateMap env_sample ?o2 = (Inl (Thrown ''no dataset zz''), [Load ''a'', Load ''zz''])"
    by simp
  from m1 d1 l1 e1 d2 l3 e2 show ?thesis
    by simp
qed


text \<open>Claim C8. In the document of a successful render: when \<open>showgraticules\<close> is
  provided and equals \<open>false\<close> case-insensitively, there is no graticule path; when it
  is not provided or is \<open>true\<close>, there is exactly one graticule path, bound to the
  graticule of step 15 by 15, drawn with the projection of the render, clipped by
  \<open>url(#clip)\<close>, without fill, with the gray stroke \<open>#666\<close> of width \<open>0.5\<close> and the dash
  pattern \<open>2,2\<close>.\<close>

theorem graticule_shown_or_hidden:
  assumes "generateMap env opts = (Inr doc, tr)"
    and "provided = (case styles opts of None \<Rightarrow> Map.empty | Some s \<Rightarrow> s)"
  shows "((\<exists>v. provided ''showgraticules'' = Some v \<and> equalsIgnoreCase v ''false'') \<longrightarrow>
            graticulePaths doc = []) \<and>
         (provided ''showgraticules'' = None \<or> provided ''showgraticules'' = Some ''true'' \<longrightarrow>
            (\<exists>proj. renderProjection env (projectionType opts) (center opts) (bounds opts) =
                      Inr proj \<and>
                    graticulePaths doc =
                      [Element ''path'' (Some (Graticule (15, 15)))
                         [(''d'', GeoPath proj),
                          (''clip-path'', Str ''url(#clip)''),
                          (''fill'', Str ''none''),
                          (''stroke'', Str ''#666''),
                          (''stroke-width'', Str ''0.5''),
                          (''stroke-dasharray'', Str ''2,2'')] []]))"
proof -
  from generateMap_Inr [OF assms(1)] obtain proj gs v where
    p: "renderProjection env (projectionType opts) (center opts) (bounds opts) = Inr proj"
    and v: "mergeStyles (styles opts) ''showgraticules'' = Some v"
    and d: "doc = specDocument (mergeStyles (styles opts)) proj (toLowerCase v = ''true'') gs"
    by blast
  have e: "v = (case provided ''showgraticules'' of None \<Rightarrow> ''true'' | Some w \<Rightarrow> w)"
    using v showgraticules_merged [of "styles opts"] assms(2) by simp
  have lo: "toLowerCase ''true'' = ''true''"
    by (simp add: toLowerCase_def letter_defs)
  have off: "graticulePaths doc = []"
    if "provided ''showgraticules'' = Some w" and "equalsIgnoreCase w ''false''" for w
    using that e d by (simp add: equalsIgnoreCase_false graticulePaths_specDocument)
  have on: "graticulePaths doc = [graticulePath proj]"
    if "provided ''showgraticules'' = None \<or> provided ''showgraticules'' = Some ''true''"
    using that e d lo by (auto simp add: graticulePaths_specDocument)
  from off on p show ?thesis
    by (auto simp add: graticulePath_def)
qed

theorem graticule_shown_or_hidden_witness:
  "equalsIgnoreCase ''FaLsE'' ''false'' \<and>
   generateMap env_sample
     (opts_sample\<lparr>mapdata := Some ''c'', styles := Some [''showgraticules'' \<mapsto> ''FaLsE'']\<rparr>) =
     (Inr (specDocument (mergeStyles (Some [''showgraticules'' \<mapsto> ''FaLsE'']))
             waterman_sample False [3]),
      [Load ''c'',
       Write ''map.svg''
         (specDocument (mergeStyles (Some [''showgraticules'' \<mapsto> ''FaLsE'']))
            waterman_sample False [3])]) \<and>
   graticulePaths
     (specDocument (mergeStyles (Some [''showgraticules'' \<mapsto> ''FaLsE'']))
        waterman_sample False [3 :: nat]) = [] \<and>
   generateMap env_sample (opts_sample\<lparr>mapdata := Some ''c'', styles := None\<rparr>) =
     (Inr (specDocument (mergeStyles None) waterman_sample True [3]),
      [Load ''c'', Write ''map.svg'' (specDocument (mergeStyles None) waterman_sample True [3])]) \<and>
   graticulePaths (specDocument (mergeStyles None) waterman_sample True [3 :: nat]) =
     [Element ''path'' (Some (Graticule (15, 15)))
        [(''d'', GeoPath waterman_sample),
         (''clip-path'', Str ''url(#clip)''),
         (''fill'', Str ''none''),
         (''stroke'', Str ''#666''),
         (''stroke-width'', Str ''0.5''),
         (''stroke-dasharray'', Str ''2,2'')] []]"
proof -
  let ?sty = "Some [''showgraticules'' \<mapsto> ''FaLsE'']"
  let ?o1 = "opts_sample\<lparr>mapdata := Some ''c'', styles := ?sty\<rparr>"
  let ?o2 = "opts_sample\<lparr>mapdata := Some ''c'', styles := None\<rparr>"
  let ?d1 = "specDocument (mergeStyles ?sty) waterman_sample False [3] :: nat element"
  let ?d2 = "specDocument (mergeStyles None) waterman_sample True [3] :: nat element"
  have ci: "equalsIgnoreCase ''FaLsE'' ''false''"
    by (simp add: equalsIgnoreCase_def letter_defs)
  have lo: "toLowerCase ''true'' = ''true''" "toLowerCase ''FaLsE'' \<noteq> ''true''"
    by (simp_all add: toLowerCase_def letter_defs)
  have v1: "mergeStyles ?sty ''showgraticules'' = Some ''FaLsE''"
    and v2: "mergeStyles None ''showgraticules'' = Some ''true''"
    by (simp_all add: showgraticules_merged)
  have r1: "generateMap env_sample ?o1 = (Inr ?d1, [Load ''c'', Write ''map.svg'' ?d1])"
    using run_sample [OF v1] by (simp add: lo)
  have r2: "generateMap env_sample ?o2 = (Inr ?d2, [Load ''c'', Write ''map.svg'' ?d2])"
    using run_sample [OF v2] by (simp add: lo)
  have rp: "renderProjection env_sample (projectionType ?o2) (center ?o2) (bounds ?o2) =
              Inr waterman_sample"
    by (rule render_sample)
  from graticule_shown_or_hidden [OF r1 refl] ci
  have g1: "graticulePaths ?d1 = []"
    by simp
  from graticule_shown_or_hidden [OF r2 refl] rp
  have g2: "graticulePaths ?d2 =
     [Element ''path'' (Some (Graticule (15, 15)))
        [(''d'', GeoPath waterman_sample),
         (''clip-path'', Str ''url(#clip)''),
         (''fill'', Str ''none''),
         (''stroke'', Str ''#666''),
         (''stroke-width'', Str ''0.5''),
         (''stroke-dasharray'', Str ''2,2'')] []]"
    by simp
  from ci r1 g1 r2 g2 show ?thesis
    by blast
qed

text \<open>Claim C9. In the document of a successful render there is a graticule path if and
  only if the lower-cased effective value of \<open>showgraticules\<close> is exactly \<open>true\<close>; every
  other value leaves the graticule out, and a provided value is the effective one. So the
  provided values \<open>yes\<close>, \<open>1\<close> and \<open>true\<close> followed by a space disable the graticule.\<close>

theorem graticule_only_for_true:
  assumes "generateMap env opts = (Inr doc, tr)"
    and "mergeStyles (styles opts) ''showgraticules'' = Some v"
  shows "(graticulePaths doc \<noteq> [] \<longleftrightarrow> toLowerCase v = ''true'') \<and>
         (toLowerCase v \<noteq> ''true'' \<longrightarrow> graticulePaths doc = []) \<and>
         (\<forall>w. (case styles opts of None \<Rightarrow> Map.empty | Some s \<Rightarrow> s) ''showgraticules'' = Some w
              \<longrightarrow> v = w)"
proof -
  from generateMap_Inr [OF assms(1)] assms(2) obtain proj gs where
    d: "doc = specDocument (mergeStyles (styles opts)) proj (toLowerCase v = ''true'') gs"
    by auto
  have "v = w"
    if "(case styles opts of None \<Rightarrow> Map.empty | Some s \<Rightarrow> s) ''showgraticules'' = Some w" for w
    using that assms(2) showgraticules_merged [of "styles opts"] by simp
  with d show ?thesis
    by (simp add: graticulePaths_specDocument)
qed

theorem graticule_only_for_true_witness:
  "mergeStyles (Some [''showgraticules'' \<mapsto> ''true '']) ''showgraticules'' = Some ''true '' \<and>
   toLowerCase ''true '' \<noteq> ''true'' \<and> toLowerCase ''yes'' \<noteq> ''true'' \<and>
   toLowerCase ''1'' \<noteq> ''true'' \<and>
   generateMap env_sample
     (opts_sample\<lparr>mapdata := Some ''c'', styles := Some [''showgraticules'' \<mapsto> ''true '']\<rparr>) =
     (Inr (specDocument (mergeStyles (Some [''showgraticules'' \<mapsto> ''true '']))
             waterman_sample False [3]),
      [Load ''c'',
       Write ''map.svg''
         (specDocument (mergeStyles (Some [''showgraticules'' \<mapsto> ''true '']))
            waterman_sample False [3])]) \<and>
   graticulePaths
     (specDocument (mergeStyles (Some [''showgraticules'' \<mapsto> ''true '']))
        waterman_sample False [3 :: nat]) = []"
proof -
  let ?sty = "Some [''showgraticules'' \<mapsto> ''true '']"
  let ?o = "opts_sample\<lparr>mapdata := Some ''c'', styles := ?sty\<rparr>"
  let ?d = "specDocument (mergeStyles ?sty) waterman_sample False [3] :: nat element"
  have lo: "toLowerCase ''true '' \<noteq> ''true''" "toLowerCase ''yes'' \<noteq> ''true''"
    "toLowerCase ''1'' \<noteq> ''true''"
    by (simp_all add: toLowerCase_def)
  have v: "mergeStyles ?sty ''showgraticules'' = Some ''true ''"
    by (simp add: showgraticules_merged)
  have r: "generateMap env_sample ?o = (Inr ?d, [Load ''c'', Write ''map.svg'' ?d])"
    using run_sample [OF v] by (simp add: lo)
  have s: "mergeStyles (styles ?o) ''showgraticules'' = Some ''true ''"
    using v by simp
  from graticule_only_for_true [OF r s] lo
  have g: "graticulePaths ?d = []"
    by blast
  from v lo r g show ?thesis
    by blast
qed

end
